theory Spec2Isabelle
  imports Complex_Main "HOL-Library.Word" "HOL-Library.AList"
begin

section \<open>Python values, exceptions and strings\<close>

text \<open>
  The client passes Python objects around untyped: an image argument is tested with
  \<open>is not None\<close> and with truthiness, whatever its type. The values that can travel in a
  JSON body or come back from \<open>response.json()\<close> are modelled by one datatype; \<open>PNone\<close> is
  Python's \<open>None\<close>. A Python dict is an association list with distinct keys in insertion
  order. Floats are idealised as reals.
\<close>

type_synonym byte = "8 word"

datatype pyval =
    PNone
  | PBool bool
  | PInt int
  | PFloat real
  | PStr string
  | PList "pyval list"
  | PDict "(string \<times> pyval) list"

type_synonym pydict = "(string \<times> pyval) list"

fun truthy :: "pyval \<Rightarrow> bool" where
  "truthy PNone = False"
| "truthy (PBool b) = b"
| "truthy (PInt i) = (i \<noteq> 0)"
| "truthy (PFloat x) = (x \<noteq> 0)"
| "truthy (PStr s) = (s \<noteq> [])"
| "truthy (PList xs) = (xs \<noteq> [])"
| "truthy (PDict kvs) = (kvs \<noteq> [])"

text \<open>
  An exception is its class and its message; \<open>str(e)\<close> is the message. \<open>LibraryError\<close>
  stands for the classes raised by the libraries the client calls (requests, PIL, the
  file system, binascii), named by their class name.
\<close>

datatype exc_class =
    Exception
  | ValueError
  | TypeError
  | UnboundLocalError
  | LibraryError string

datatype exc = Exc exc_class string

fun str_exc :: "exc \<Rightarrow> string" where
  "str_exc (Exc c m) = m"

fun class_of :: "exc \<Rightarrow> exc_class" where
  "class_of (Exc c m) = c"

text \<open>\<open>str\<close> of an integer, as an f-string prints a status code.\<close>

definition digit :: "nat \<Rightarrow> char" where
  "digit d = char_of (of_char (CHR ''0'') + d)"

fun str_nat :: "nat \<Rightarrow> string" where
  "str_nat n = (if n < 10 then [digit n] else str_nat (n div 10) @ [digit (n mod 10)])"

declare str_nat.simps [simp del]

definition str_int :: "int \<Rightarrow> string" where
  "str_int i = (if i < 0 then CHR ''-'' # str_nat (nat (- i)) else str_nat (nat i))"

text \<open>\<open>s.startswith(p)\<close> and the substring test \<open>sub in s\<close>.\<close>

definition startswith :: "string \<Rightarrow> string \<Rightarrow> bool" where
  "startswith s p = (take (length p) s = p)"

fun str_in :: "string \<Rightarrow> string \<Rightarrow> bool" where
  "str_in sub [] = (sub = [])"
| "str_in sub (c # s) = (take (length sub) (c # s) = sub \<or> str_in sub s)"


text \<open>
  The operator \<open>'error' in x\<close> and the subscript \<open>x['error']\<close> on a parsed JSON value:
  key membership and lookup on a dict, element membership on a list, substring on a
  string, and a \<open>TypeError\<close> on the values that are not containers or cannot be indexed
  by a string.
\<close>

fun type_name :: "pyval \<Rightarrow> string" where
  "type_name PNone = ''NoneType''"
| "type_name (PBool b) = ''bool''"
| "type_name (PInt i) = ''int''"
| "type_name (PFloat x) = ''float''"
| "type_name (PStr s) = ''str''"
| "type_name (PList xs) = ''list''"
| "type_name (PDict kvs) = ''dict''"

fun py_in :: "string \<Rightarrow> pyval \<Rightarrow> exc + bool" where
  "py_in k (PDict kvs) = Inr (k \<in> set (map fst kvs))"
| "py_in k (PList xs) = Inr (PStr k \<in> set xs)"
| "py_in k (PStr s) = Inr (str_in k s)"
| "py_in k v = Inl (Exc TypeError (''argument of type '' @ [CHR 0x27] @ type_name v @ [CHR 0x27] @ '' is not iterable''))"

fun py_getitem :: "pyval \<Rightarrow> string \<Rightarrow> exc + pyval" where
  "py_getitem (PDict kvs) k =
     (case map_of kvs k of
        Some v \<Rightarrow> Inr v
      | None \<Rightarrow> Inl (Exc (LibraryError ''KeyError'') k))"
| "py_getitem (PList xs) k = Inl (Exc TypeError ''list indices must be integers or slices, not str'')"
| "py_getitem (PStr s) k = Inl (Exc TypeError ''string indices must be integers'')"
| "py_getitem v k = Inl (Exc TypeError ([CHR 0x27] @ type_name v @ [CHR 0x27] @ '' object is not subscriptable''))"

section \<open>Base64, as the standard library computes it\<close>

text \<open>
  \<open>base64.b64encode\<close>: three bytes become four characters of the alphabet; a last group
  of one or two bytes is padded with \<open>=\<close>.
\<close>

definition b64_alphabet :: string where
  "b64_alphabet = ''ABCDEFGHIJKLMNOPQRSTUVWXYZabcdefghijklmnopqrstuvwxyz0123456789+/''"

definition b64_char :: "nat \<Rightarrow> char" where
  "b64_char i = b64_alphabet ! i"

fun b64encode :: "byte list \<Rightarrow> string" where
  "b64encode (a # b # c # rest) =
     [b64_char (unat a div 4),
      b64_char ((unat a mod 4) * 16 + unat b div 16),
      b64_char ((unat b mod 16) * 4 + unat c div 64),
      b64_char (unat c mod 64)] @ b64encode rest"
| "b64encode [a, b] =
     [b64_char (unat a div 4),
      b64_char ((unat a mod 4) * 16 + unat b div 16),
      b64_char ((unat b mod 16) * 4),
      CHR ''='']"
| "b64encode [a] =
     [b64_char (unat a div 4), b64_char ((unat a mod 4) * 16), CHR ''='', CHR ''='']"
| "b64encode [] = []"

text \<open>
  \<open>base64.b64decode\<close> on a \<open>str\<close> with the default \<open>validate=False\<close>: the string must be
  ASCII, then \<open>binascii.a2b_base64\<close> runs its loop in the lenient mode. The loop keeps the
  position in the current group of four (\<open>quad_pos\<close>), the bits left over from the last
  character (\<open>leftchar\<close>) and the count of padding characters seen (\<open>pads\<close>); characters
  outside the alphabet are skipped, a complete padding ends the decoding, and input that
  ends inside a group is an error. The shifts and ors of the C code are written as
  multiplications and sums, which agree on these ranges; \<open>of_nat\<close> stores into a byte.
\<close>

fun index_of :: "'a \<Rightarrow> 'a list \<Rightarrow> nat option" where
  "index_of x [] = None"
| "index_of x (y # ys) = (if x = y then Some 0 else map_option Suc (index_of x ys))"

definition b64_index :: "char \<Rightarrow> nat option" where
  "b64_index ch = index_of ch b64_alphabet"

fun a2b_base64 :: "string \<Rightarrow> nat \<Rightarrow> nat \<Rightarrow> nat \<Rightarrow> byte list \<Rightarrow> exc + byte list" where
  "a2b_base64 [] quad_pos leftchar pads out =
     (if quad_pos = 0 then Inr out
      else if quad_pos = 1
        then Inl (Exc (LibraryError ''binascii.Error'')
          ''Invalid base64-encoded string: number of data characters cannot be 1 more than a multiple of 4'')
        else Inl (Exc (LibraryError ''binascii.Error'') ''Incorrect padding''))"
| "a2b_base64 (ch # rest) quad_pos leftchar pads out =
     (if ch = CHR ''='' then
        (if 2 \<le> quad_pos \<and> 4 \<le> quad_pos + (pads + 1) then Inr out
         else a2b_base64 rest quad_pos leftchar (if 2 \<le> quad_pos then pads + 1 else pads) out)
      else
        (case b64_index ch of
           None \<Rightarrow> a2b_base64 rest quad_pos leftchar pads out
         | Some v \<Rightarrow>
             (if quad_pos = 0 then a2b_base64 rest 1 v 0 out
              else if quad_pos = 1
                then a2b_base64 rest 2 (v mod 16) 0 (out @ [of_nat (leftchar * 4 + v div 16)])
              else if quad_pos = 2
                then a2b_base64 rest 3 (v mod 4) 0 (out @ [of_nat (leftchar * 16 + v div 4)])
              else a2b_base64 rest 0 0 0 (out @ [of_nat (leftchar * 64 + v)]))))"

definition b64decode :: "string \<Rightarrow> exc + byte list" where
  "b64decode s =
     (if list_all (\<lambda>c. (of_char c :: nat) < 128) s then a2b_base64 s 0 0 0 []
      else Inl (Exc ValueError ''string argument should contain only ASCII characters''))"

section \<open>The runtime the client runs on\<close>

text \<open>
  The libraries are parameters: \<open>open_read p\<close> is \<open>open(p, 'rb').read()\<close>, \<open>Image_open\<close> is
  PIL's \<open>Image.open(io.BytesIO(bytes))\<close>, \<open>Image_save img fmt\<close> is the bytes
  \<open>img.save(buffer, format=fmt)\<close> writes, and \<open>py_str\<close> is the built-in \<open>str\<close> on the values
  that are not strings. Each of them may raise.
\<close>

record 'img runtime =
  open_read :: "pyval \<Rightarrow> exc + byte list"
  Image_open :: "byte list \<Rightarrow> exc + 'img"
  Image_save :: "'img \<Rightarrow> string \<Rightarrow> exc + byte list"
  py_str :: "pyval \<Rightarrow> string"

text \<open>An f-string field \<open>{v}\<close>: a string is inserted as it is, any other value through \<open>str\<close>.\<close>

definition format_value :: "'img runtime \<Rightarrow> pyval \<Rightarrow> string" where
  "format_value rt v = (case v of PStr s \<Rightarrow> s | _ \<Rightarrow> py_str rt v)"

text \<open>
  The network is a log of the requests sent and the replies still to come: every
  \<open>requests.post\<close> appends its request to the log and consumes the next reply, which is a
  response or an exception of the transport. With no reply left the transport raises.
\<close>

record request =
  req_url :: string
  req_json :: pydict
  req_headers :: pydict

record response =
  status_code :: int
  resp_headers :: "(string \<times> string) list"
  content :: "byte list"
  json :: "pyval option"

text \<open>
  \<open>json r\<close> is what \<open>r.json()\<close> returns, \<open>None\<close> when it raises \<open>ValueError\<close>;
  \<open>resp_headers r\<close> is the mapping \<open>r.headers.get\<close> consults.
\<close>

record net =
  sent :: "request list"
  pending :: "(exc + response) list"

definition requests_post :: "string \<Rightarrow> pydict \<Rightarrow> pydict \<Rightarrow> net \<Rightarrow> (exc + response) \<times> net" where
  "requests_post url body hdrs n =
     (let rq = \<lparr>req_url = url, req_json = body, req_headers = hdrs\<rparr> in
      case pending n of
        [] \<Rightarrow> (Inl (Exc (LibraryError ''ConnectionError'') ''no reply''), n\<lparr>sent := sent n @ [rq]\<rparr>)
      | r # rs \<Rightarrow> (r, \<lparr>sent = sent n @ [rq], pending = rs\<rparr>))"

section \<open>The client: \<open>SegmindAPI\<close>\<close>

record client =
  api_key :: pyval
  headers :: pydict

definition BASE_URL :: string where
  "BASE_URL = ''https://api.segmind.com/v1/''"


datatype 'img result = RImage 'img | RJson pyval | RBytes "byte list"

text \<open>
  The error branch shared by \<open>_handle_response\<close> and \<open>veo_3\<close>: the message starts from the
  status code; when \<open>response.json()\<close> returns and \<open>'error' in error_data\<close> holds, the
  error field is appended. Only \<open>ValueError\<close> is caught, so a \<open>TypeError\<close> of the
  membership test or of the subscript escapes.
\<close>

definition api_failure :: "'img runtime \<Rightarrow> response \<Rightarrow> exc" where
  "api_failure rt r =
     (let error_message = ''API request failed with status code '' @ str_int (status_code r) in
      case json r of
        None \<Rightarrow> Exc Exception error_message
      | Some error_data \<Rightarrow>
          (case py_in ''error'' error_data of
             Inl e \<Rightarrow> e
           | Inr False \<Rightarrow> Exc Exception error_message
           | Inr True \<Rightarrow>
               (case py_getitem error_data ''error'' of
                  Inl e \<Rightarrow> e
                | Inr v \<Rightarrow> Exc Exception (error_message @ '': '' @ format_value rt v))))"

definition handle_response :: "'img runtime \<Rightarrow> response \<Rightarrow> exc + 'img result" where
  "handle_response rt r =
     (if status_code r = 200 then
        (if startswith (case map_of (resp_headers r) ''Content-Type'' of None \<Rightarrow> '''' | Some t \<Rightarrow> t)
              ''image/''
         then (case Image_open rt (content r) of Inl e \<Rightarrow> Inl e | Inr img \<Rightarrow> Inr (RImage img))
         else (case json r of Some v \<Rightarrow> Inr (RJson v) | None \<Rightarrow> Inr (RBytes (content r))))
      else Inl (api_failure rt r))"

definition get_remaining_credits :: "response \<Rightarrow> string option" where
  "get_remaining_credits r = map_of (resp_headers r) ''x-remaining-credits''"

text \<open>
  \<open>response = requests.post(url, json=params, headers=self.headers)\<close> followed by
  \<open>return self._handle_response(response)\<close>.
\<close>

definition post_and_handle ::
  "'img runtime \<Rightarrow> client \<Rightarrow> string \<Rightarrow> pydict \<Rightarrow> net \<Rightarrow> (exc + 'img result) \<times> net" where
  "post_and_handle rt self url params n =
     (case requests_post url params (headers self) n of
        (Inl e, n') \<Rightarrow> (Inl e, n')
      | (Inr r, n') \<Rightarrow> (handle_response rt r, n'))"

definition text_to_image ::
  "'img runtime \<Rightarrow> client \<Rightarrow> string \<Rightarrow> pydict \<Rightarrow> net \<Rightarrow> (exc + 'img result) \<times> net" where
  "text_to_image rt self model_name params n =
     post_and_handle rt self (BASE_URL @ model_name) params n"

text \<open>
  \<open>image_to_image\<close>. The validation counts the arguments that are not \<open>None\<close>; the
  branches test truthiness. Each branch posts and binds \<open>response\<close>; the final
  \<open>return self._handle_response(response)\<close> reads it, which is an \<open>UnboundLocalError\<close>
  when no branch ran.
\<close>

definition image_to_image ::
  "'img runtime \<Rightarrow> client \<Rightarrow> string \<Rightarrow> pyval \<Rightarrow> pyval \<Rightarrow> pyval \<Rightarrow> pydict \<Rightarrow> net
     \<Rightarrow> (exc + 'img result) \<times> net" where
  "image_to_image rt self model_name image_url image_path image_base64 params n =
     (if length (filter (\<lambda>x. x \<noteq> PNone) [image_url, image_path, image_base64]) \<noteq> 1 then
        (Inl (Exc ValueError
           ''Exactly one of image_url, image_path, or image_base64 must be provided.''), n)
      else
        (let url = BASE_URL @ model_name in
         if truthy image_url then
           post_and_handle rt self url (AList.update ''image'' image_url params) n
         else if truthy image_path then
           (case open_read rt image_path of
              Inl e \<Rightarrow> (Inl e, n)
            | Inr img_data \<Rightarrow>
                post_and_handle rt self url
                  (AList.update ''image''
                     (PStr (''data:image/jpeg;base64,'' @ b64encode img_data)) params) n)
         else if truthy image_base64 then
           post_and_handle rt self url (AList.update ''image'' image_base64 params) n
         else
           (Inl (Exc UnboundLocalError
              ''cannot access local variable 'response' where it is not associated with a value''), n)))"




















section \<open>The helpers of \<open>segmind_utils\<close>\<close>

definition lower_char :: "char \<Rightarrow> char" where
  "lower_char c =
     (let k = (of_char c :: nat) in if 65 \<le> k \<and> k \<le> 90 then char_of (k + 32) else c)"

text \<open>
  \<open>image_to_base64(image, format)\<close> saves the image into a buffer and wraps the base64
  text in a data URL; \<open>base64_to_image\<close> drops everything up to the first comma, when
  there is one, decodes and opens. Format names are ASCII.
\<close>

definition image_to_base64 :: "'img runtime \<Rightarrow> 'img \<Rightarrow> string \<Rightarrow> exc + string" where
  "image_to_base64 rt img format =
     (case Image_save rt img format of
        Inl e \<Rightarrow> Inl e
      | Inr buffered \<Rightarrow>
          Inr (''data:image/'' @ map lower_char format @ '';base64,'' @ b64encode buffered))"

definition base64_to_image :: "'img runtime \<Rightarrow> string \<Rightarrow> exc + 'img" where
  "base64_to_image rt base64_str =
     (let s = (if CHR '','' \<in> set base64_str
               then tl (dropWhile (\<lambda>c. c \<noteq> CHR '','') base64_str)
               else base64_str)
      in case b64decode s of
           Inl e \<Rightarrow> Inl e
         | Inr img_data \<Rightarrow> Image_open rt img_data)"

section \<open>The retry loop of \<open>examples.run_with_backoff\<close>\<close>

text \<open>
  \<open>func\<close> is the wrapped call: it changes a state (for a dispatch, the network) and
  returns or raises. \<open>uniform k\<close> is the value the \<open>k\<close>-th call of
  \<open>random.uniform(0, 0.1)\<close> returns. The loop records each \<open>time.sleep(wait_time)\<close>;
  \<open>time.sleep\<close> raises \<open>ValueError\<close> on a negative length. The progress line the loop
  prints is left out. The result is the outcome, the final state and the sleeps in order.
\<close>

function backoff_loop ::
  "('s \<Rightarrow> (exc + 'a) \<times> 's) \<Rightarrow> int \<Rightarrow> (nat \<Rightarrow> real) \<Rightarrow> int \<Rightarrow> real \<Rightarrow> 's \<Rightarrow> real list
     \<Rightarrow> (exc + 'a) \<times> 's \<times> real list" where
  "backoff_loop func max_retries uniform retries delay s slept =
     (if retries \<le> max_retries then
        (case func s of
           (Inr v, s') \<Rightarrow> (Inr v, s', slept)
         | (Inl e, s') \<Rightarrow>
             (let error_message = str_exc e in
              if str_in ''429'' error_message \<and> retries < max_retries then
                (let jitter = uniform (length slept) * delay;
                     wait_time = delay + jitter
                 in if wait_time < 0
                    then (Inl (Exc ValueError ''sleep length must be non-negative''), s', slept)
                    else backoff_loop func max_retries uniform (retries + 1) (delay * 2) s'
                           (slept @ [wait_time]))
              else (Inl e, s', slept)))
      else (Inl (Exc Exception (''Failed after '' @ str_int max_retries @ '' retries'')), s, slept))"
  by pat_completeness auto
termination
  by (relation "measure (\<lambda>(func, max_retries, uniform, retries, delay, s, slept).
        nat (max_retries - retries))") auto

declare backoff_loop.simps [simp del]

definition run_with_backoff ::
  "('s \<Rightarrow> (exc + 'a) \<times> 's) \<Rightarrow> int \<Rightarrow> real \<Rightarrow> (nat \<Rightarrow> real) \<Rightarrow> 's \<Rightarrow> (exc + 'a) \<times> 's \<times> real list" where
  "run_with_backoff func max_retries initial_delay uniform s =
     backoff_loop func max_retries uniform 0 initial_delay s []"

section \<open>What a call adds to the network log\<close>



section \<open>Sample inputs\<close>

text \<open>
  A runtime whose images are their own bytes and whose files are all missing, a network
  with nothing sent and no reply waiting, and a client as \<open>init\<close> builds it.
\<close>

definition stub_runtime :: "byte list runtime" where
  "stub_runtime =
     \<lparr>open_read = (\<lambda>p. Inl (Exc (LibraryError ''FileNotFoundError'') '''')),
      Image_open = Inr,
      Image_save = (\<lambda>img fmt. Inr img),
      py_str = type_name\<rparr>"

definition idle_net :: net where
  "idle_net = \<lparr>sent = [], pending = []\<rparr>"

definition demo_client :: client where
  "demo_client =
     \<lparr>api_key = PStr ''SG_key'',
      headers = [(''x-api-key'', PStr ''SG_key''), (''Content-Type'', PStr ''application/json'')]\<rparr>"

text \<open>Responses: an image, a JSON body, an authentication failure and a 201.\<close>

definition jpeg_response :: response where
  "jpeg_response =
     \<lparr>status_code = 200, resp_headers = [(''Content-Type'', ''image/jpeg'')],
      content = [0xFF, 0xD8, 0xFF], json = None\<rparr>"

definition foo_response :: response where
  "foo_response =
     \<lparr>status_code = 200, resp_headers = [(''Content-Type'', ''application/json'')],
      content = [], json = Some (PDict [(''foo'', PStr ''bar'')])\<rparr>"

definition unauthorized_response :: response where
  "unauthorized_response =
     \<lparr>status_code = 401, resp_headers = [(''Content-Type'', ''application/json'')],
      content = [], json = Some (PDict [(''error'', PStr ''Invalid API key'')])\<rparr>"




definition upstream_response :: response where
  "upstream_response =
     \<lparr>status_code = 500, resp_headers = [(''Content-Type'', ''application/json'')],
      content = [], json = Some (PDict [(''error'', PStr ''upstream returned 429'')])\<rparr>"



definition upstream_net :: net where
  "upstream_net = \<lparr>sent = [], pending = [Inr upstream_response, Inr foo_response]\<rparr>"

definition no_jitter :: "nat \<Rightarrow> real" where
  "no_jitter k = 0"


section \<open>Validation of the image arguments\<close>

text \<open>
  C1. When the number of image arguments that are not \<open>None\<close> is zero, or two or more,
  \<open>image_to_image\<close> raises the \<open>ValueError\<close> of its validation, and the network is as
  it was: nothing has been sent and no reply consumed.
\<close>

theorem image_to_image_validation:
  assumes "k = length (filter (\<lambda>x. x \<noteq> PNone) [image_url, image_path, image_base64])"
    and "k = 0 \<or> 2 \<le> k"
  shows "\<exists>m. image_to_image rt self model_name image_url image_path image_base64 params n
           = (Inl (Exc ValueError m), n)"
proof -
  from assms have "length (filter (\<lambda>x. x \<noteq> PNone) [image_url, image_path, image_base64]) \<noteq> 1"
    by linarith
  then show ?thesis
    unfolding image_to_image_def by simp
qed

theorem image_to_image_validation_witness:
  "(\<exists>m. image_to_image stub_runtime demo_client ''sam'' PNone PNone PNone [] idle_net
           = (Inl (Exc ValueError m), idle_net))
   \<and> (\<exists>m. image_to_image stub_runtime demo_client ''sam'' (PStr ''http://h/a.png'') PNone
             (PStr ''QUJD'') [] idle_net
           = (Inl (Exc ValueError m), idle_net))"
  using image_to_image_validation [of 0 PNone PNone PNone stub_runtime demo_client "''sam''" "[]" idle_net]
    image_to_image_validation [of 2 "PStr ''http://h/a.png''" PNone "PStr ''QUJD''" stub_runtime
      demo_client "''sam''" "[]" idle_net]
  by simp

text \<open>
  C10. When exactly one image argument is not \<open>None\<close> and that argument is falsy (the
  empty string, or any other falsy value), the validation passes, no branch posts, and
  the call ends in the \<open>UnboundLocalError\<close> of reading \<open>response\<close>, not in the
  \<open>ValueError\<close> of the validation; the network is as it was.
\<close>

theorem falsy_sole_image_argument:
  assumes "filter (\<lambda>x. x \<noteq> PNone) [image_url, image_path, image_base64] = [v]"
    and "\<not> truthy v"
  shows "\<exists>m. image_to_image rt self model_name image_url image_path image_base64 params n
           = (Inl (Exc UnboundLocalError m), n)"
proof -
  have f: "\<not> truthy image_url" "\<not> truthy image_path" "\<not> truthy image_base64"
    using assms by (auto split: if_splits)
  have "length (filter (\<lambda>x. x \<noteq> PNone) [image_url, image_path, image_base64]) = 1"
    using assms(1) by simp
  then show ?thesis
    unfolding image_to_image_def using f by (simp add: Let_def)
qed

theorem falsy_sole_image_argument_witness:
  "(\<exists>m. image_to_image stub_runtime demo_client ''sam'' (PStr '''') PNone PNone [] idle_net
           = (Inl (Exc UnboundLocalError m), idle_net))
   \<and> (\<exists>m. image_to_image stub_runtime demo_client ''sam'' PNone PNone (PInt 0) [] idle_net
           = (Inl (Exc UnboundLocalError m), idle_net))"
  using falsy_sole_image_argument [of "PStr ''''" PNone PNone "PStr ''''" stub_runtime demo_client
      "''sam''" "[]" idle_net]
    falsy_sole_image_argument [of PNone PNone "PInt 0" "PInt 0" stub_runtime demo_client
      "''sam''" "[]" idle_net]
  by simp

section \<open>Classification of responses\<close>




lemma str_int_200: "str_int 200 = ''200''"
  by code_simp
lemma str_int_401: "str_int 401 = ''401''"
  by code_simp


lemma api_failure_object:
  "json r = Some (PDict kvs) \<Longrightarrow>
     api_failure rt r =
       Exc Exception (''API request failed with status code '' @ str_int (status_code r) @
         (case map_of kvs ''error'' of None \<Rightarrow> [] | Some v \<Rightarrow> '': '' @ format_value rt v))"
proof (cases "map_of kvs ''error''")
  case None
  assume j: "json r = Some (PDict kvs)"
  from None have "''error'' \<notin> set (map fst kvs)"
    by (simp add: map_of_eq_None_iff)
  with j None show ?thesis by (simp add: api_failure_def)
next
  case (Some v)
  assume j: "json r = Some (PDict kvs)"
  from Some have "''error'' \<in> set (map fst kvs)"
    by (metis map_of_eq_None_iff option.distinct(1) set_map)
  with j Some show ?thesis by (simp add: api_failure_def)
qed

text \<open>
  C3. A response with status 200 and content type \<open>image/jpeg\<close> whose body the decoder
  opens is classified as that image; a response with status 200, a content type that is
  not an image and the JSON body \<open>{"foo": "bar"}\<close> is classified as that mapping; a
  response with status 401 and the JSON body \<open>{"error": "Invalid API key"}\<close> raises the
  exception whose message contains both \<open>401\<close> and \<open>Invalid API key\<close>.
\<close>

theorem classification_examples:
  "(status_code r = 200 \<and> map_of (resp_headers r) ''Content-Type'' = Some ''image/jpeg''
      \<and> Image_open rt (content r) = Inr img
      \<longrightarrow> handle_response rt r = Inr (RImage img))
   \<and> (status_code r = 200
      \<and> \<not> startswith (case map_of (resp_headers r) ''Content-Type'' of None \<Rightarrow> [] | Some t \<Rightarrow> t) ''image/''
      \<and> json r = Some (PDict [(''foo'', PStr ''bar'')])
      \<longrightarrow> handle_response rt r = Inr (RJson (PDict [(''foo'', PStr ''bar'')])))
   \<and> (status_code r = 401 \<and> json r = Some (PDict [(''error'', PStr ''Invalid API key'')])
      \<longrightarrow> (\<exists>m. handle_response rt r = Inl (Exc Exception m)
             \<and> m = ''API request failed with status code 401: Invalid API key''
             \<and> str_in ''401'' m \<and> str_in ''Invalid API key'' m))"
proof (intro conjI impI)
  assume "status_code r = 200 \<and> map_of (resp_headers r) ''Content-Type'' = Some ''image/jpeg''
      \<and> Image_open rt (content r) = Inr img"
  then show "handle_response rt r = Inr (RImage img)"
    by (simp add: handle_response_def startswith_def)
next
  assume "status_code r = 200
      \<and> \<not> startswith (case map_of (resp_headers r) ''Content-Type'' of None \<Rightarrow> [] | Some t \<Rightarrow> t) ''image/''
      \<and> json r = Some (PDict [(''foo'', PStr ''bar'')])"
  then show "handle_response rt r = Inr (RJson (PDict [(''foo'', PStr ''bar'')]))"
    by (simp add: handle_response_def)
next
  assume a: "status_code r = 401 \<and> json r = Some (PDict [(''error'', PStr ''Invalid API key'')])"
  then have "api_failure rt r = Exc Exception (''API request failed with status code '' @ str_int 401 @ '': '' @ ''Invalid API key'')"
    using api_failure_object [of r "[(''error'', PStr ''Invalid API key'')]" rt]
    by (simp add: format_value_def)
  then have e: "handle_response rt r = Inl (Exc Exception ''API request failed with status code 401: Invalid API key'')"
    using a by (simp add: handle_response_def str_int_401)
  have "str_in ''401'' ''API request failed with status code 401: Invalid API key''"
    by simp
  moreover have "str_in ''Invalid API key'' ''API request failed with status code 401: Invalid API key''"
    by simp
  ultimately show "\<exists>m. handle_response rt r = Inl (Exc Exception m)
             \<and> m = ''API request failed with status code 401: Invalid API key''
             \<and> str_in ''401'' m \<and> str_in ''Invalid API key'' m"
    using e by simp
qed

theorem classification_examples_witness:
  "handle_response stub_runtime jpeg_response = Inr (RImage [0xFF, 0xD8, 0xFF])
   \<and> handle_response stub_runtime foo_response = Inr (RJson (PDict [(''foo'', PStr ''bar'')]))
   \<and> (\<exists>m. handle_response stub_runtime unauthorized_response = Inl (Exc Exception m)
          \<and> m = ''API request failed with status code 401: Invalid API key''
          \<and> str_in ''401'' m \<and> str_in ''Invalid API key'' m)"
  using classification_examples [of jpeg_response stub_runtime "[0xFF, 0xD8, 0xFF]"]
    classification_examples [of foo_response stub_runtime "[]"]
    classification_examples [of unauthorized_response stub_runtime "[]"]
  by (simp add: jpeg_response_def foo_response_def unauthorized_response_def stub_runtime_def
      startswith_def)

section \<open>Classification by status\<close>





section \<open>The credential and the requests that carry it\<close>














section \<open>The mask of \<open>face_swap\<close>\<close>












section \<open>Retry with backoff\<close>

text \<open>One turn of the loop: the call returns, the call is retried, the error is raised.\<close>

lemma backoff_loop_return:
  "func s = (Inr v, s') \<Longrightarrow> retries \<le> max_retries \<Longrightarrow>
     backoff_loop func max_retries uniform retries delay s slept = (Inr v, s', slept)"
  by (subst backoff_loop.simps) simp

lemma backoff_loop_retry:
  assumes "func s = (Inl e, s')" and "str_in ''429'' (str_exc e)" and "retries < max_retries"
    and "0 \<le> delay" and "0 \<le> uniform (length slept)"
  shows "backoff_loop func max_retries uniform retries delay s slept
       = backoff_loop func max_retries uniform (retries + 1) (delay * 2) s'
           (slept @ [delay + uniform (length slept) * delay])"
proof -
  have "0 \<le> delay + uniform (length slept) * delay"
    using assms(4,5) by simp
  then have "\<not> delay + uniform (length slept) * delay < 0"
    by simp
  with assms(1,2,3) show ?thesis
    by (subst backoff_loop.simps) (simp add: Let_def)
qed


lemma backoff_loop_raise:
  "func s = (Inl e, s') \<Longrightarrow> retries \<le> max_retries \<Longrightarrow>
   \<not> (str_in ''429'' (str_exc e) \<and> retries < max_retries) \<Longrightarrow>
     backoff_loop func max_retries uniform retries delay s slept = (Inl e, s', slept)"
  by (subst backoff_loop.simps) (auto simp: Let_def)

lemma text_to_image_reply:
  "pending n = Inr r # rs \<Longrightarrow>
     text_to_image rt self m p n
       = (handle_response rt r,
          \<lparr>sent = sent n @ [\<lparr>req_url = BASE_URL @ m, req_json = p, req_headers = headers self\<rparr>],
           pending = rs\<rparr>)"
  by (simp add: text_to_image_def post_and_handle_def requests_post_def Let_def)







text \<open>
  An error whose message does not contain \<open>429\<close> is raised at once: no sleep, no second
  attempt.
\<close>

lemma backoff_other_error:
  assumes "func s = (Inl e, s')" and "\<not> str_in ''429'' (str_exc e)" and "0 \<le> max_retries"
  shows "run_with_backoff func max_retries initial_delay uniform s = (Inl e, s', [])"
  using backoff_loop_raise [of func s e s' 0 max_retries uniform initial_delay "[]"] assms
  by (simp add: run_with_backoff_def)

lemma str_int_500: "str_int 500 = ''500''"
  by code_simp

text \<open>
  C7 on the code: a reply with status 500 whose error detail mentions 429. The loop takes
  it for a rate limit, sleeps one second and calls again; the second reply is returned.
\<close>

theorem server_error_is_retried:
  "run_with_backoff (text_to_image stub_runtime demo_client ''sdxl1.0-txt2img'' []) 5 1
       no_jitter upstream_net
     = (Inr (RJson (PDict [(''foo'', PStr ''bar'')])),
        \<lparr>sent = [\<lparr>req_url = ''https://api.segmind.com/v1/sdxl1.0-txt2img'', req_json = [],
                   req_headers = headers demo_client\<rparr>,
                 \<lparr>req_url = ''https://api.segmind.com/v1/sdxl1.0-txt2img'', req_json = [],
                   req_headers = headers demo_client\<rparr>],
         pending = []\<rparr>,
        [1])"
proof -
  let ?f = "text_to_image stub_runtime demo_client ''sdxl1.0-txt2img'' []"
  let ?rq = "\<lparr>req_url = ''https://api.segmind.com/v1/sdxl1.0-txt2img'', req_json = [],
                   req_headers = headers demo_client\<rparr>"
  let ?e = "Exc Exception ''API request failed with status code 500: upstream returned 429''"
  let ?n1 = "\<lparr>sent = [?rq], pending = [Inr foo_response]\<rparr>"
  let ?n2 = "\<lparr>sent = [?rq, ?rq], pending = []\<rparr>"
  have h1: "handle_response stub_runtime upstream_response = Inl ?e"
    by (simp add: handle_response_def api_failure_def upstream_response_def str_int_500
        format_value_def)
  have h2: "handle_response stub_runtime foo_response = Inr (RJson (PDict [(''foo'', PStr ''bar'')]))"
    by (simp add: foo_response_def handle_response_def startswith_def)
  have c1: "?f upstream_net = (Inl ?e, ?n1)"
    using text_to_image_reply [of upstream_net upstream_response "[Inr foo_response]" stub_runtime
        demo_client "''sdxl1.0-txt2img''" "[]"] h1
    by (simp add: upstream_net_def BASE_URL_def)
  have c2: "?f ?n1 = (Inr (RJson (PDict [(''foo'', PStr ''bar'')])), ?n2)"
    using text_to_image_reply [of ?n1 foo_response "[]" stub_runtime demo_client
        "''sdxl1.0-txt2img''" "[]"] h2
    by (simp add: BASE_URL_def)
  have m: "str_in ''429'' (str_exc ?e)"
    by simp
  have s1: "backoff_loop ?f 5 no_jitter 0 1 upstream_net []
      = backoff_loop ?f 5 no_jitter 1 2 ?n1 [1]"
    using backoff_loop_retry [of ?f upstream_net ?e ?n1 0 5 1 no_jitter "[]"] c1 m
    by (simp add: no_jitter_def)
  have s2: "backoff_loop ?f 5 no_jitter 1 2 ?n1 [1]
      = (Inr (RJson (PDict [(''foo'', PStr ''bar'')])), ?n2, [1])"
    using backoff_loop_return [of ?f ?n1 "RJson (PDict [(''foo'', PStr ''bar'')])" ?n2 1 5] c2
    by simp
  show ?thesis
    using s1 s2 by (simp add: run_with_backoff_def)
qed

section \<open>The data URL round trip\<close>

text \<open>
  The alphabet: each of the 64 characters decodes to its index, is ASCII and is not the
  padding character.
\<close>

lemma b64_alphabet_table:
  "list_all (\<lambda>i. b64_index (b64_char i) = Some i \<and> b64_char i \<noteq> CHR ''=''
      \<and> (of_char (b64_char i) :: nat) < 128) [0..<64]"
  by code_simp

lemma b64_char_facts:
  assumes "i < 64"
  shows "b64_index (b64_char i) = Some i" and "b64_char i \<noteq> CHR ''=''"
    and "(of_char (b64_char i) :: nat) < 128"
  using b64_alphabet_table assms by (simp_all add: list_all_iff)

text \<open>The decoder on one character of the alphabet, at each position of the group.\<close>

lemma a2b_char:
  assumes "i < 64"
  shows "a2b_base64 (b64_char i # rest) 0 l p out = a2b_base64 rest 1 i 0 out"
    and "a2b_base64 (b64_char i # rest) 1 l p out
           = a2b_base64 rest 2 (i mod 16) 0 (out @ [of_nat (l * 4 + i div 16)])"
    and "a2b_base64 (b64_char i # rest) 2 l p out
           = a2b_base64 rest 3 (i mod 4) 0 (out @ [of_nat (l * 16 + i div 4)])"
    and "a2b_base64 (b64_char i # rest) 3 l p out
           = a2b_base64 rest 0 0 0 (out @ [of_nat (l * 64 + i)])"
  using b64_char_facts(1,2) [OF assms] by simp_all

text \<open>The sextets of the encoder are below 64, and they recombine to the bytes.\<close>

lemma sextet_bounds:
  fixes x y :: nat
  shows "x < 256 \<Longrightarrow> x div 4 < 64"
    and "y < 256 \<Longrightarrow> (x mod 4) * 16 + y div 16 < 64"
    and "y < 256 \<Longrightarrow> (x mod 16) * 4 + y div 64 < 64"
    and "x mod 64 < 64"
    and "(x mod 4) * 16 < 64"
    and "(x mod 16) * 4 < 64"
  by arith+

lemma sextet_high:
  fixes x y :: nat
  shows "y < 256 \<Longrightarrow> ((x mod 4) * 16 + y div 16) div 16 = x mod 4"
  by simp

lemma sextet_low:
  fixes x y :: nat
  shows "y < 256 \<Longrightarrow> ((x mod 4) * 16 + y div 16) mod 16 = y div 16"
  by simp

lemma sextet_high':
  fixes x y :: nat
  shows "y < 256 \<Longrightarrow> ((x mod 16) * 4 + y div 64) div 4 = x mod 16"
  by simp

lemma sextet_low':
  fixes x y :: nat
  shows "y < 256 \<Longrightarrow> ((x mod 16) * 4 + y div 64) mod 4 = y div 64"
  by simp

lemma sextet_join:
  fixes x y :: nat
  shows "y < 256 \<Longrightarrow> x div 4 * 4 + ((x mod 4) * 16 + y div 16) div 16 = x"
    and "y < 256 \<Longrightarrow> ((x mod 4) * 16 + y div 16) mod 16 = y div 16"
    and "y < 256 \<Longrightarrow> x div 16 * 16 + ((x mod 16) * 4 + y div 64) div 4 = x"
    and "y < 256 \<Longrightarrow> ((x mod 16) * 4 + y div 64) mod 4 = y div 64"
    and "x div 64 * 64 + x mod 64 = x"
    and "x div 4 * 4 + ((x mod 4) * 16) div 16 = x"
    and "x div 16 * 16 + ((x mod 16) * 4) div 4 = x"
  by (simp_all add: sextet_high sextet_low sextet_high' sextet_low')

lemma unat_byte: "unat (a :: byte) < 256"
  using unsigned_less [of a] by simp

lemma of_nat_unat_byte: "of_nat (unat (a :: byte)) = a"
  by simp

lemma byte_join:
  fixes a b c :: byte
  shows "of_nat (unat a div 4 * 4 + ((unat a mod 4) * 16 + unat b div 16) div 16) = a"
    and "of_nat (((unat a mod 4) * 16 + unat b div 16) mod 16 * 16
            + ((unat b mod 16) * 4 + unat c div 64) div 4) = b"
    and "of_nat (((unat b mod 16) * 4 + unat c div 64) mod 4 * 64 + unat c mod 64) = c"
    and "of_nat (unat a div 4 * 4 + ((unat a mod 4) * 16) div 16) = a"
    and "of_nat (((unat a mod 4) * 16 + unat b div 16) mod 16 * 16
            + ((unat b mod 16) * 4) div 4) = b"
proof -
  have "unat a div 4 * 4 + ((unat a mod 4) * 16 + unat b div 16) div 16 = unat a"
    by (simp only: sextet_join(1) [OF unat_byte])
  then show "of_nat (unat a div 4 * 4 + ((unat a mod 4) * 16 + unat b div 16) div 16) = a"
    by (simp only: of_nat_unat_byte)
  have "((unat a mod 4) * 16 + unat b div 16) mod 16 * 16
            + ((unat b mod 16) * 4 + unat c div 64) div 4 = unat b"
    by (simp only: sextet_join(2) [OF unat_byte] sextet_join(3) [OF unat_byte])
  then show "of_nat (((unat a mod 4) * 16 + unat b div 16) mod 16 * 16
            + ((unat b mod 16) * 4 + unat c div 64) div 4) = b"
    by (simp only: of_nat_unat_byte)
  have "((unat b mod 16) * 4 + unat c div 64) mod 4 * 64 + unat c mod 64 = unat c"
    by (simp only: sextet_join(4) [OF unat_byte] sextet_join(5))
  then show "of_nat (((unat b mod 16) * 4 + unat c div 64) mod 4 * 64 + unat c mod 64) = c"
    by (simp only: of_nat_unat_byte)
  have "unat a div 4 * 4 + ((unat a mod 4) * 16) div 16 = unat a"
    by (simp only: sextet_join(6))
  then show "of_nat (unat a div 4 * 4 + ((unat a mod 4) * 16) div 16) = a"
    by (simp only: of_nat_unat_byte)
  have "((unat a mod 4) * 16 + unat b div 16) mod 16 * 16 + ((unat b mod 16) * 4) div 4 = unat b"
    by (simp only: sextet_join(2) [OF unat_byte] sextet_join(7))
  then show "of_nat (((unat a mod 4) * 16 + unat b div 16) mod 16 * 16
            + ((unat b mod 16) * 4) div 4) = b"
    by (simp only: of_nat_unat_byte)
qed

text \<open>A full group of four characters gives its three bytes back; so do the padded groups.\<close>

lemma a2b_group:
  "a2b_base64
     ([b64_char (unat a div 4),
       b64_char ((unat a mod 4) * 16 + unat b div 16),
       b64_char ((unat b mod 16) * 4 + unat c div 64),
       b64_char (unat c mod 64)] @ rest) 0 l p out
   = a2b_base64 rest 0 0 0 (out @ [a, b, c])"
proof -
  let ?s1 = "unat a div 4"
  let ?s2 = "(unat a mod 4) * 16 + unat b div 16"
  let ?s3 = "(unat b mod 16) * 4 + unat c div 64"
  let ?s4 = "unat c mod 64"
  have b1: "?s1 < 64" by (rule sextet_bounds(1) [OF unat_byte])
  have b2: "?s2 < 64" by (rule sextet_bounds(2) [OF unat_byte])
  have b3: "?s3 < 64" by (rule sextet_bounds(3) [OF unat_byte])
  have b4: "?s4 < 64" by (rule sextet_bounds(4))
  have "a2b_base64 (b64_char ?s1 # b64_char ?s2 # b64_char ?s3 # b64_char ?s4 # rest) 0 l p out
      = a2b_base64 (b64_char ?s2 # b64_char ?s3 # b64_char ?s4 # rest) 1 ?s1 0 out"
    by (rule a2b_char(1) [OF b1])
  also have "\<dots> = a2b_base64 (b64_char ?s3 # b64_char ?s4 # rest) 2 (?s2 mod 16) 0
      (out @ [of_nat (?s1 * 4 + ?s2 div 16)])"
    by (rule a2b_char(2) [OF b2])
  also have "\<dots> = a2b_base64 (b64_char ?s4 # rest) 3 (?s3 mod 4) 0
      ((out @ [of_nat (?s1 * 4 + ?s2 div 16)]) @ [of_nat (?s2 mod 16 * 16 + ?s3 div 4)])"
    by (rule a2b_char(3) [OF b3])
  also have "\<dots> = a2b_base64 rest 0 0 0
      (((out @ [of_nat (?s1 * 4 + ?s2 div 16)]) @ [of_nat (?s2 mod 16 * 16 + ?s3 div 4)])
        @ [of_nat (?s3 mod 4 * 64 + ?s4)])"
    by (rule a2b_char(4) [OF b4])
  also have "\<dots> = a2b_base64 rest 0 0 0 (out @ [a, b, c])"
    by (simp only: byte_join append_assoc append.simps)
  finally show ?thesis
    by (simp only: append.simps)
qed

lemma a2b_pad:
  "a2b_base64 [CHR ''=''] 3 l 0 out = Inr out"
  "a2b_base64 [CHR ''='', CHR ''=''] 2 l 0 out = Inr out"
  by simp_all

lemma a2b_last_two:
  "a2b_base64
     [b64_char (unat a div 4),
      b64_char ((unat a mod 4) * 16 + unat b div 16),
      b64_char ((unat b mod 16) * 4),
      CHR ''=''] 0 l p out
   = Inr (out @ [a, b])"
proof -
  let ?s1 = "unat a div 4"
  let ?s2 = "(unat a mod 4) * 16 + unat b div 16"
  let ?s3 = "(unat b mod 16) * 4"
  have b1: "?s1 < 64" by (rule sextet_bounds(1) [OF unat_byte])
  have b2: "?s2 < 64" by (rule sextet_bounds(2) [OF unat_byte])
  have b3: "?s3 < 64" by (rule sextet_bounds(6))
  have "a2b_base64 (b64_char ?s1 # b64_char ?s2 # b64_char ?s3 # [CHR ''='']) 0 l p out
      = a2b_base64 (b64_char ?s2 # b64_char ?s3 # [CHR ''='']) 1 ?s1 0 out"
    by (rule a2b_char(1) [OF b1])
  also have "\<dots> = a2b_base64 (b64_char ?s3 # [CHR ''='']) 2 (?s2 mod 16) 0
      (out @ [of_nat (?s1 * 4 + ?s2 div 16)])"
    by (rule a2b_char(2) [OF b2])
  also have "\<dots> = a2b_base64 [CHR ''=''] 3 (?s3 mod 4) 0
      ((out @ [of_nat (?s1 * 4 + ?s2 div 16)]) @ [of_nat (?s2 mod 16 * 16 + ?s3 div 4)])"
    by (rule a2b_char(3) [OF b3])
  also have "\<dots> = Inr ((out @ [of_nat (?s1 * 4 + ?s2 div 16)])
      @ [of_nat (?s2 mod 16 * 16 + ?s3 div 4)])"
    by (rule a2b_pad(1))
  also have "\<dots> = Inr (out @ [a, b])"
    by (simp only: byte_join append_assoc append.simps)
  finally show ?thesis .
qed

lemma a2b_last_one:
  "a2b_base64
     [b64_char (unat a div 4), b64_char ((unat a mod 4) * 16), CHR ''='', CHR ''=''] 0 l p out
   = Inr (out @ [a])"
proof -
  let ?s1 = "unat a div 4"
  let ?s2 = "(unat a mod 4) * 16"
  have b1: "?s1 < 64" by (rule sextet_bounds(1) [OF unat_byte])
  have b2: "?s2 < 64" by (rule sextet_bounds(5))
  have "a2b_base64 (b64_char ?s1 # b64_char ?s2 # [CHR ''='', CHR ''='']) 0 l p out
      = a2b_base64 (b64_char ?s2 # [CHR ''='', CHR ''='']) 1 ?s1 0 out"
    by (rule a2b_char(1) [OF b1])
  also have "\<dots> = a2b_base64 [CHR ''='', CHR ''=''] 2 (?s2 mod 16) 0
      (out @ [of_nat (?s1 * 4 + ?s2 div 16)])"
    by (rule a2b_char(2) [OF b2])
  also have "\<dots> = Inr (out @ [of_nat (?s1 * 4 + ?s2 div 16)])"
    by (rule a2b_pad(2))
  also have "\<dots> = Inr (out @ [a])"
    by (simp only: byte_join)
  finally show ?thesis .
qed

text \<open>Decoding what the encoder wrote gives the bytes.\<close>

lemma a2b_b64encode: "a2b_base64 (b64encode bs) 0 l p out = Inr (out @ bs)"
proof (induction bs arbitrary: l p out rule: b64encode.induct)
  case (1 a b c rest)
  have "a2b_base64 (b64encode (a # b # c # rest)) 0 l p out
      = a2b_base64 (b64encode rest) 0 0 0 (out @ [a, b, c])"
    by (simp only: b64encode.simps a2b_group)
  also have "\<dots> = Inr ((out @ [a, b, c]) @ rest)"
    by (rule "1.IH")
  finally show ?case
    by (simp only: append_assoc append.simps)
next
  case (2 a b)
  show ?case
    by (simp only: b64encode.simps a2b_last_two)
next
  case (3 a)
  show ?case
    by (simp only: b64encode.simps a2b_last_one)
next
  case 4
  show ?case by simp
qed

lemma pad_ascii: "(of_char (CHR ''='') :: nat) < 128"
  by simp

lemma b64encode_ascii: "list_all (\<lambda>c. (of_char c :: nat) < 128) (b64encode bs)"
proof (induction bs rule: b64encode.induct)
  case (1 a b c rest)
  have "(of_char (b64_char (unat a div 4)) :: nat) < 128"
      "(of_char (b64_char ((unat a mod 4) * 16 + unat b div 16)) :: nat) < 128"
      "(of_char (b64_char ((unat b mod 16) * 4 + unat c div 64)) :: nat) < 128"
      "(of_char (b64_char (unat c mod 64)) :: nat) < 128"
    using sextet_bounds(1,2,3) [OF unat_byte] sextet_bounds(4) by (simp_all only: b64_char_facts(3))
  with 1 show ?case
    by (simp only: b64encode.simps list_all_Nil_iff list_all_Cons_iff list_all_append simp_thms)
next
  case (2 a b)
  have "(of_char (b64_char (unat a div 4)) :: nat) < 128"
      "(of_char (b64_char ((unat a mod 4) * 16 + unat b div 16)) :: nat) < 128"
      "(of_char (b64_char ((unat b mod 16) * 4)) :: nat) < 128"
    using sextet_bounds(1,2) [OF unat_byte] sextet_bounds(6) by (simp_all only: b64_char_facts(3))
  then show ?case
    using pad_ascii by (simp only: b64encode.simps list_all_Nil_iff list_all_Cons_iff simp_thms)
next
  case (3 a)
  have "(of_char (b64_char (unat a div 4)) :: nat) < 128"
      "(of_char (b64_char ((unat a mod 4) * 16)) :: nat) < 128"
    using sextet_bounds(1) [OF unat_byte] sextet_bounds(5) by (simp_all only: b64_char_facts(3))
  then show ?case
    using pad_ascii by (simp only: b64encode.simps list_all_Nil_iff list_all_Cons_iff simp_thms)
next
  case 4
  show ?case by simp
qed

lemma b64decode_b64encode: "b64decode (b64encode bs) = Inr bs"
  using a2b_b64encode [of bs 0 0 "[]"] b64encode_ascii [of bs]
  by (simp only: b64decode_def if_True append.simps)

text \<open>
  What \<open>base64_to_image\<close> makes of the data URL \<open>image_to_base64\<close> builds, for any format
  name without a comma: it opens the very bytes that were saved.
\<close>

lemma data_url_payload:
  assumes "CHR '','' \<notin> set fmt"
  shows "CHR '','' \<in> set (''data:image/'' @ fmt @ '';base64,'' @ e)"
    and "tl (dropWhile (\<lambda>c. c \<noteq> CHR '','') (''data:image/'' @ fmt @ '';base64,'' @ e)) = e"
proof -
  show "CHR '','' \<in> set (''data:image/'' @ fmt @ '';base64,'' @ e)"
    by simp
  have "dropWhile (\<lambda>c. c \<noteq> CHR '','') (fmt @ '';base64,'' @ e) = CHR '','' # e"
    using assms by (simp add: dropWhile_append)
  then show "tl (dropWhile (\<lambda>c. c \<noteq> CHR '','') (''data:image/'' @ fmt @ '';base64,'' @ e)) = e"
    by simp
qed

lemma data_url_transport:
  assumes "Image_save rt img fmt = Inr bs" and "CHR '','' \<notin> set (map lower_char fmt)"
  shows "image_to_base64 rt img fmt
           = Inr (''data:image/'' @ map lower_char fmt @ '';base64,'' @ b64encode bs)"
    and "base64_to_image rt (''data:image/'' @ map lower_char fmt @ '';base64,'' @ b64encode bs)
           = Image_open rt bs"
proof -
  show "image_to_base64 rt img fmt
           = Inr (''data:image/'' @ map lower_char fmt @ '';base64,'' @ b64encode bs)"
    using assms(1) by (simp add: image_to_base64_def)
  show "base64_to_image rt (''data:image/'' @ map lower_char fmt @ '';base64,'' @ b64encode bs)
           = Image_open rt bs"
    unfolding base64_to_image_def Let_def
    by (simp only: data_url_payload [OF assms(2)] if_True b64decode_b64encode sum.case)
qed

text \<open>
  C8. For the format PNG: when saving the image gives bytes that open as the image again
  (the codec is lossless on it), encoding the image to the data URL and decoding the data
  URL gives the image back.
\<close>

theorem png_round_trip:
  assumes "Image_save rt img ''PNG'' = Inr bs" and "Image_open rt bs = Inr img"
  shows "\<exists>s. image_to_base64 rt img ''PNG'' = Inr s
           \<and> s = ''data:image/png;base64,'' @ b64encode bs
           \<and> base64_to_image rt s = Inr img"
proof -
  have l: "map lower_char ''PNG'' = ''png''"
    by code_simp
  have c: "CHR '','' \<notin> set (map lower_char ''PNG'')"
    unfolding l by simp
  have e: "image_to_base64 rt img ''PNG'' = Inr (''data:image/png;base64,'' @ b64encode bs)"
    using data_url_transport(1) [OF assms(1) c, unfolded l] by simp
  have d: "base64_to_image rt (''data:image/png;base64,'' @ b64encode bs) = Inr img"
    using data_url_transport(2) [OF assms(1) c, unfolded l] assms(2) by simp
  from e d show ?thesis
    by blast
qed

theorem png_round_trip_witness:
  "\<exists>s. image_to_base64 stub_runtime [0x89, 0x50, 0x4E, 0x47] ''PNG'' = Inr s
       \<and> s = ''data:image/png;base64,'' @ b64encode [0x89, 0x50, 0x4E, 0x47]
       \<and> base64_to_image stub_runtime s = Inr [0x89, 0x50, 0x4E, 0x47]"
proof -
  have a: "Image_save stub_runtime [0x89, 0x50, 0x4E, 0x47] ''PNG'' = Inr [0x89, 0x50, 0x4E, 0x47]"
    by (simp add: stub_runtime_def)
  have b: "Image_open stub_runtime [0x89, 0x50, 0x4E, 0x47] = Inr [0x89, 0x50, 0x4E, 0x47]"
    by (simp add: stub_runtime_def)
  show ?thesis
    by (rule png_round_trip [OF a b])
qed

lemma b64encode_sample: "b64encode [0x89, 0x50, 0x4E, 0x47] = ''iVBORw==''"
  by code_simp

lemma b64decode_sample: "b64decode ''iVBORw=='' = Inr [0x89, 0x50, 0x4E, 0x47]"
  using b64decode_b64encode [of "[0x89, 0x50, 0x4E, 0x47]"] by (simp only: b64encode_sample)

end
